theory Spec2Isabelle
  imports Main
begin

section \<open>The permission model of operation\_log.py\<close>

text \<open>
  The enumeration \<open>Operation\<close>: six privileged capabilities. \<open>Operation_value\<close> is the
  member's \<open>.value\<close>.
\<close>

datatype Operation =
  CREATE_USER | DELETE_USER | EDIT_USER | VIEW_REPORTS | GENERATE_REPORTS | MANAGE_UNIT

fun Operation_value :: "Operation \<Rightarrow> string" where
  "Operation_value CREATE_USER = ''create_user''"
| "Operation_value DELETE_USER = ''delete_user''"
| "Operation_value EDIT_USER = ''edit_user''"
| "Operation_value VIEW_REPORTS = ''view_reports''"
| "Operation_value GENERATE_REPORTS = ''generate_reports''"
| "Operation_value MANAGE_UNIT = ''manage_unit''"

text \<open>
  Class \<open>Profile\<close>. \<open>unit_permissions\<close> is a dict from unit ids to sets of operations,
  \<open>global_permissions\<close> a set of operations. The field \<open>operator_code\<close> carries a prime
  here, the plain name being the field of \<open>OperationLog\<close> below.
\<close>

record Profile =
  name :: string
  base_role :: string
  operator_code' :: string
  unit_permissions :: "string \<rightharpoonup> Operation set"
  global_permissions :: "Operation set"

text \<open>\<open>Profile.__init__\<close>: both permission containers start empty.\<close>

definition Profile_init :: "string \<Rightarrow> string \<Rightarrow> string \<Rightarrow> Profile" where
  "Profile_init name0 base_role0 operator_code0 =
     \<lparr>name = name0, base_role = base_role0, operator_code' = operator_code0,
      unit_permissions = Map.empty, global_permissions = {}\<rparr>"

text \<open>
  \<open>Profile.add_unit_permission\<close>: the per-unit set is created when the unit id is not
  yet a key, then the operation is added to the set stored under the key. The mutation
  of \<open>self\<close> is the returned profile. The lookup after the insertion cannot miss the key;
  the last branch only makes the function total.
\<close>

definition add_unit_permission :: "Profile \<Rightarrow> string \<Rightarrow> Operation \<Rightarrow> Profile" where
  "add_unit_permission self unit_id0 operation0 =
     (let perms = (if unit_id0 \<notin> dom (unit_permissions self)
                   then (unit_permissions self)(unit_id0 \<mapsto> {})
                   else unit_permissions self)
      in (case perms unit_id0 of
            Some s \<Rightarrow> self\<lparr>unit_permissions := perms(unit_id0 \<mapsto> insert operation0 s)\<rparr>
          | None \<Rightarrow> self))"

text \<open>\<open>Profile.add_global_permission\<close>.\<close>

definition add_global_permission :: "Profile \<Rightarrow> Operation \<Rightarrow> Profile" where
  "add_global_permission self operation0 =
     self\<lparr>global_permissions := insert operation0 (global_permissions self)\<rparr>"

text \<open>
  \<open>Profile.can_perform\<close>. The argument \<open>unit_id\<close> defaults to \<open>None\<close>; the test
  \<open>if unit_id and ...\<close> is Python truthiness, which is false for \<open>None\<close> and for the
  empty string.
\<close>

definition can_perform :: "Profile \<Rightarrow> Operation \<Rightarrow> string option \<Rightarrow> bool" where
  "can_perform self operation0 unit_id0 =
     (if operation0 \<in> global_permissions self then True
      else (case unit_id0 of
              Some u \<Rightarrow>
                (if u \<noteq> [] then
                   (case unit_permissions self u of
                      Some perms \<Rightarrow> operation0 \<in> perms
                    | None \<Rightarrow> False)
                 else False)
            | None \<Rightarrow> False))"

section \<open>Exceptions\<close>

text \<open>
  A raised exception is its class and its message \<open>str(e)\<close>. These are the classes the
  modelled code can raise; all of them derive from \<open>Exception\<close>, so the clause
  \<open>except Exception\<close> catches every value of this type. A call that can raise returns
  \<open>exception + 'a\<close>, with \<open>Inl\<close> for the raise.
\<close>

datatype exc_class = PermissionError | FileNotFoundError | ValueError | KeyError | TypeError

datatype exception = Exception exc_class string

fun exc_class_of :: "exception \<Rightarrow> exc_class" where
  "exc_class_of (Exception c m) = c"

fun str_exc :: "exception \<Rightarrow> string" where
  "str_exc (Exception c m) = m"

fun and_then :: "exception + 'a \<Rightarrow> ('a \<Rightarrow> exception + 'b) \<Rightarrow> exception + 'b" where
  "and_then (Inl e) f = Inl e"
| "and_then (Inr x) f = f x"

text \<open>\<open>repr\<close> of a string without quotes or escapes in it: the string in single quotes.\<close>

definition repr :: "string \<Rightarrow> string" where
  "repr s = [CHR 0x27] @ s @ [CHR 0x27]"

section \<open>Naive datetime values\<close>

text \<open>
  The library class \<open>datetime\<close>, for values without time zone (\<open>datetime.now()\<close> returns
  such values). The constructor of the class admits exactly the field values of
  \<open>valid_datetime\<close>.
\<close>

record datetime =
  year :: nat
  month :: nat
  day :: nat
  hour :: nat
  minute :: nat
  second :: nat
  microsecond :: nat

definition is_leap :: "nat \<Rightarrow> bool" where
  "is_leap y = (y mod 4 = 0 \<and> (y mod 100 \<noteq> 0 \<or> y mod 400 = 0))"

definition days_in_month :: "nat \<Rightarrow> nat \<Rightarrow> nat" where
  "days_in_month y m =
     (if m = 2 then (if is_leap y then 29 else 28)
      else if m = 4 \<or> m = 6 \<or> m = 9 \<or> m = 11 then 30 else 31)"

definition valid_datetime :: "datetime \<Rightarrow> bool" where
  "valid_datetime t =
     (1 \<le> year t \<and> year t \<le> 9999 \<and> 1 \<le> month t \<and> month t \<le> 12 \<and>
      1 \<le> day t \<and> day t \<le> days_in_month (year t) (month t) \<and>
      hour t < 24 \<and> minute t < 60 \<and> second t < 60 \<and> microsecond t < 1000000)"

text \<open>
  Comparison of two naive datetimes is the comparison of the tuples
  \<open>(year, month, day, hour, minute, second, microsecond)\<close>.
\<close>

fun lex_le :: "nat list \<Rightarrow> nat list \<Rightarrow> bool" where
  "lex_le [] ys = True"
| "lex_le (x # xs) [] = False"
| "lex_le (x # xs) (y # ys) = (x < y \<or> (x = y \<and> lex_le xs ys))"

definition datetime_tuple :: "datetime \<Rightarrow> nat list" where
  "datetime_tuple t = [year t, month t, day t, hour t, minute t, second t, microsecond t]"

definition datetime_le :: "datetime \<Rightarrow> datetime \<Rightarrow> bool" where
  "datetime_le a b = lex_le (datetime_tuple a) (datetime_tuple b)"

subsection \<open>isoformat\<close>

text \<open>
  \<open>"%02d"\<close>, \<open>"%04d"\<close> and \<open>"%06d"\<close> on the fields of a datetime: within the class's
  ranges the result has exactly that many decimal digits.
\<close>

definition digit_char :: "nat \<Rightarrow> char" where
  "digit_char n = char_of (48 + n)"

definition pad2 :: "nat \<Rightarrow> string" where
  "pad2 n = [digit_char (n div 10 mod 10), digit_char (n mod 10)]"

definition pad4 :: "nat \<Rightarrow> string" where
  "pad4 n = [digit_char (n div 1000 mod 10), digit_char (n div 100 mod 10),
             digit_char (n div 10 mod 10), digit_char (n mod 10)]"

definition pad6 :: "nat \<Rightarrow> string" where
  "pad6 n = [digit_char (n div 100000 mod 10), digit_char (n div 10000 mod 10),
             digit_char (n div 1000 mod 10), digit_char (n div 100 mod 10),
             digit_char (n div 10 mod 10), digit_char (n mod 10)]"

text \<open>
  \<open>datetime.isoformat()\<close> with its default arguments on a naive value:
  \<open>YYYY-MM-DDTHH:MM:SS\<close>, followed by \<open>.ffffff\<close> when the microsecond is not zero.
\<close>

definition isoformat :: "datetime \<Rightarrow> string" where
  "isoformat t =
     pad4 (year t) @ ''-'' @ pad2 (month t) @ ''-'' @ pad2 (day t) @ ''T'' @
     pad2 (hour t) @ '':'' @ pad2 (minute t) @ '':'' @ pad2 (second t) @
     (if microsecond t = 0 then [] else ''.'' @ pad6 (microsecond t))"

subsection \<open>fromisoformat\<close>

text \<open>
  \<open>datetime.fromisoformat\<close>, on the format the library documents for Python 3.7 to
  3.10, \<open>YYYY-MM-DD[*HH[:MM[:SS[.fff[fff]]]]]\<close> where \<open>*\<close> is any single character,
  without the UTC offset: a string with an offset denotes a value with time zone, which
  this model does not hold, and is answered with \<open>ValueError\<close> here. The fields read
  go through the constructor's range check. Each parser consumes a prefix and returns
  the value read and the rest.
\<close>

definition is_digit :: "char \<Rightarrow> bool" where
  "is_digit c = (48 \<le> (of_char c :: nat) \<and> (of_char c :: nat) \<le> 57)"

definition digit_val :: "char \<Rightarrow> nat" where
  "digit_val c = of_char c - 48"

fun parse2 :: "string \<Rightarrow> (nat \<times> string) option" where
  "parse2 (a # b # rest) =
     (if is_digit a \<and> is_digit b then Some (10 * digit_val a + digit_val b, rest) else None)"
| "parse2 s = None"

fun parse3 :: "string \<Rightarrow> (nat \<times> string) option" where
  "parse3 (a # b # c # rest) =
     (if is_digit a \<and> is_digit b \<and> is_digit c
      then Some (100 * digit_val a + 10 * digit_val b + digit_val c, rest) else None)"
| "parse3 s = None"

fun parse4 :: "string \<Rightarrow> (nat \<times> string) option" where
  "parse4 (a # b # c # d # rest) =
     (if is_digit a \<and> is_digit b \<and> is_digit c \<and> is_digit d
      then Some (1000 * digit_val a + 100 * digit_val b + 10 * digit_val c + digit_val d, rest)
      else None)"
| "parse4 s = None"

fun parse6 :: "string \<Rightarrow> (nat \<times> string) option" where
  "parse6 (a # b # c # d # e # f # rest) =
     (if is_digit a \<and> is_digit b \<and> is_digit c \<and> is_digit d \<and> is_digit e \<and> is_digit f
      then Some (100000 * digit_val a + 10000 * digit_val b + 1000 * digit_val c +
                 100 * digit_val d + 10 * digit_val e + digit_val f, rest)
      else None)"
| "parse6 s = None"

fun expect :: "char \<Rightarrow> string \<Rightarrow> string option" where
  "expect c (x # rest) = (if x = c then Some rest else None)"
| "expect c [] = None"

definition parse_date :: "string \<Rightarrow> ((nat \<times> nat \<times> nat) \<times> string) option" where
  "parse_date s =
     Option.bind (parse4 s) (\<lambda>(y, s1).
     Option.bind (expect CHR ''-'' s1) (\<lambda>s2.
     Option.bind (parse2 s2) (\<lambda>(m, s3).
     Option.bind (expect CHR ''-'' s3) (\<lambda>s4.
     Option.bind (parse2 s4) (\<lambda>(d, s5). Some ((y, m, d), s5))))))"

definition parse_fraction :: "string \<Rightarrow> nat option" where
  "parse_fraction s =
     (if length s = 3 then map_option (\<lambda>(v, r). v * 1000) (parse3 s)
      else if length s = 6 then map_option (\<lambda>(v, r). v) (parse6 s)
      else None)"

definition parse_time :: "string \<Rightarrow> (nat \<times> nat \<times> nat \<times> nat) option" where
  "parse_time s =
     Option.bind (parse2 s) (\<lambda>(h, s1).
       if s1 = [] then Some (h, 0, 0, 0) else
     Option.bind (expect CHR '':'' s1) (\<lambda>s2.
     Option.bind (parse2 s2) (\<lambda>(mi, s3).
       if s3 = [] then Some (h, mi, 0, 0) else
     Option.bind (expect CHR '':'' s3) (\<lambda>s4.
     Option.bind (parse2 s4) (\<lambda>(sec, s5).
       if s5 = [] then Some (h, mi, sec, 0) else
     Option.bind (expect CHR ''.'' s5) (\<lambda>s6.
     Option.bind (parse_fraction s6) (\<lambda>us. Some (h, mi, sec, us))))))))"

definition parse_isoformat :: "string \<Rightarrow> datetime option" where
  "parse_isoformat s =
     Option.bind (parse_date s) (\<lambda>((y, m, d), rest).
       (case rest of
          [] \<Rightarrow> Some \<lparr>year = y, month = m, day = d,
                      hour = 0, minute = 0, second = 0, microsecond = 0\<rparr>
        | sep # tstr \<Rightarrow>
            map_option (\<lambda>(h, mi, sec, us).
                \<lparr>year = y, month = m, day = d,
                 hour = h, minute = mi, second = sec, microsecond = us\<rparr>)
              (parse_time tstr)))"

definition fromisoformat :: "string \<Rightarrow> exception + datetime" where
  "fromisoformat s =
     (case parse_isoformat s of
        None \<Rightarrow> Inl (Exception ValueError (''Invalid isoformat string: '' @ repr s))
      | Some t \<Rightarrow>
          if valid_datetime t then Inr t
          else Inl (Exception ValueError ''datetime field out of range''))"

section \<open>JSON documents and the environment\<close>

text \<open>
  What \<open>json.load\<close> returns and \<open>json.dump\<close> takes: \<open>None\<close>, booleans, numbers,
  strings, lists, and dicts with string keys (each key once). A file of the file system
  holds one such document.
\<close>

datatype json =
  JNull | JBool bool | JNum int | JStr string | JArr "json list" | JObj "(string \<times> json) list"

text \<open>
  The environment of the program: the files, standard output (the lines printed, and
  whether the stream is closed, in which case \<open>print\<close> raises \<open>ValueError\<close>), and the
  two sources of values the program does not compute: \<open>uuid.uuid4()\<close> and
  \<open>datetime.now()\<close>, each a sequence of results of which every call takes the next.
  Writing a file is taken to succeed.
\<close>

record World =
  files :: "string \<rightharpoonup> json"
  stdout :: "string list"
  stdout_closed :: bool
  uuids :: "nat \<Rightarrow> string"
  uuid_calls :: nat
  clock :: "nat \<Rightarrow> datetime"
  clock_reads :: nat

definition uuid4 :: "World \<Rightarrow> string \<times> World" where
  "uuid4 w = (uuids w (uuid_calls w), w\<lparr>uuid_calls := Suc (uuid_calls w)\<rparr>)"

definition now :: "World \<Rightarrow> datetime \<times> World" where
  "now w = (clock w (clock_reads w), w\<lparr>clock_reads := Suc (clock_reads w)\<rparr>)"

definition print :: "string \<Rightarrow> World \<Rightarrow> exception + World" where
  "print line w =
     (if stdout_closed w then Inl (Exception ValueError ''I/O operation on closed file.'')
      else Inr (w\<lparr>stdout := stdout w @ [line]\<rparr>))"

text \<open>\<open>open(path, 'r')\<close> followed by \<open>json.load\<close>.\<close>

definition open_load :: "string \<Rightarrow> World \<Rightarrow> exception + json" where
  "open_load path w =
     (case files w path of
        None \<Rightarrow> Inl (Exception FileNotFoundError
                  (''[Errno 2] No such file or directory: '' @ repr path))
      | Some doc \<Rightarrow> Inr doc)"

text \<open>\<open>open(path, 'w')\<close> followed by \<open>json.dump\<close>.\<close>

definition open_dump :: "string \<Rightarrow> json \<Rightarrow> World \<Rightarrow> World" where
  "open_dump path doc w = w\<lparr>files := (files w)(path \<mapsto> doc)\<rparr>"

text \<open>Subscription \<open>log['key']\<close> of a loaded value.\<close>

fun getitem :: "json \<Rightarrow> string \<Rightarrow> exception + json" where
  "getitem (JObj kvs) k =
     (case map_of kvs k of Some v \<Rightarrow> Inr v | None \<Rightarrow> Inl (Exception KeyError (repr k)))"
| "getitem (JArr xs) k =
     Inl (Exception TypeError ''list indices must be integers or slices, not str'')"
| "getitem (JStr s) k = Inl (Exception TypeError ''string indices must be integers'')"
| "getitem v k = Inl (Exception TypeError ''object is not subscriptable'')"

text \<open>
  Iteration \<open>for log in logs_data\<close>: a list yields its elements, a dict its keys, a
  string its characters; nothing else is iterable.
\<close>

fun iterate :: "json \<Rightarrow> exception + json list" where
  "iterate (JArr xs) = Inr xs"
| "iterate (JObj kvs) = Inr (map (\<lambda>kv. JStr (fst kv)) kvs)"
| "iterate (JStr s) = Inr (map (\<lambda>c. JStr [c]) s)"
| "iterate v = Inl (Exception TypeError ''object is not iterable'')"

section \<open>OperationLog and LogManager\<close>

text \<open>
  The dataclass \<open>OperationLog\<close>, with the field types it declares. The field \<open>id\<close>
  carries a prime (\<open>id\<close> is the identity function of HOL).
\<close>

record OperationLog =
  id' :: string
  operator_code :: string
  operator_role :: string
  operation :: Operation
  unit_id :: "string option"
  timestamp :: datetime
  status :: string
  details :: "string option"

definition optional_str :: "string option \<Rightarrow> json" where
  "optional_str v = (case v of None \<Rightarrow> JNull | Some s \<Rightarrow> JStr s)"

definition to_dict :: "OperationLog \<Rightarrow> json" where
  "to_dict self =
     JObj [(''id'', JStr (id' self)),
           (''operator_code'', JStr (operator_code self)),
           (''operator_role'', JStr (operator_role self)),
           (''operation'', JStr (Operation_value (operation self))),
           (''unit_id'', optional_str (unit_id self)),
           (''timestamp'', JStr (isoformat (timestamp self))),
           (''status'', JStr (status self)),
           (''details'', optional_str (details self))]"

text \<open>
  The enumeration called on a value, \<open>Operation(v)\<close>: the member with that value, or
  \<open>ValueError\<close>.
\<close>

definition Operation_members :: "Operation list" where
  "Operation_members =
     [CREATE_USER, DELETE_USER, EDIT_USER, VIEW_REPORTS, GENERATE_REPORTS, MANAGE_UNIT]"

fun Operation_call :: "json \<Rightarrow> exception + Operation" where
  "Operation_call (JStr s) =
     (case find (\<lambda>m. Operation_value m = s) Operation_members of
        Some m \<Rightarrow> Inr m
      | None \<Rightarrow> Inl (Exception ValueError (repr s @ '' is not a valid Operation'')))"
| "Operation_call v = Inl (Exception ValueError ''value is not a valid Operation'')"

fun fromisoformat_call :: "json \<Rightarrow> exception + datetime" where
  "fromisoformat_call (JStr s) = fromisoformat s"
| "fromisoformat_call v = Inl (Exception TypeError ''fromisoformat: argument must be str'')"

text \<open>
  The record keeps the declared field types: a loaded value is stored in a field of
  type \<open>str\<close> when it is a string, and in a field of type \<open>Optional[str]\<close> when it is a
  string or \<open>None\<close>. Python stores any value there unchecked; a document with a value
  of another type in such a field has no counterpart in the typed record, and the model
  answers it with \<open>TypeError\<close>.
\<close>

fun str_field :: "json \<Rightarrow> exception + string" where
  "str_field (JStr s) = Inr s"
| "str_field v = Inl (Exception TypeError ''field is declared str'')"

fun optional_str_field :: "json \<Rightarrow> exception + string option" where
  "optional_str_field (JStr s) = Inr (Some s)"
| "optional_str_field JNull = Inr None"
| "optional_str_field v = Inl (Exception TypeError ''field is declared Optional[str]'')"

text \<open>
  The constructor call of the comprehension in \<open>load_logs\<close>: the keyword arguments are
  evaluated in the order written, the first raise wins.
\<close>

definition OperationLog_of :: "json \<Rightarrow> exception + OperationLog" where
  "OperationLog_of log =
     and_then (and_then (getitem log ''id'') str_field) (\<lambda>v_id.
     and_then (and_then (getitem log ''operator_code'') str_field) (\<lambda>v_code.
     and_then (and_then (getitem log ''operator_role'') str_field) (\<lambda>v_role.
     and_then (and_then (getitem log ''operation'') Operation_call) (\<lambda>v_operation.
     and_then (and_then (getitem log ''unit_id'') optional_str_field) (\<lambda>v_unit.
     and_then (and_then (getitem log ''timestamp'') fromisoformat_call) (\<lambda>v_time.
     and_then (and_then (getitem log ''status'') str_field) (\<lambda>v_status.
     and_then (and_then (getitem log ''details'') optional_str_field) (\<lambda>v_details.
       Inr \<lparr>id' = v_id, operator_code = v_code, operator_role = v_role,
            operation = v_operation, unit_id = v_unit, timestamp = v_time,
            status = v_status, details = v_details\<rparr>))))))))"

fun OperationLogs_of :: "json list \<Rightarrow> exception + OperationLog list" where
  "OperationLogs_of [] = Inr []"
| "OperationLogs_of (log # rest) =
     (case OperationLog_of log of
        Inl e \<Rightarrow> Inl e
      | Inr entry \<Rightarrow>
          (case OperationLogs_of rest of
             Inl e \<Rightarrow> Inl e
           | Inr entries \<Rightarrow> Inr (entry # entries)))"

record LogManager =
  log_file_path :: string
  logs :: "OperationLog list"

text \<open>
  \<open>LogManager.load_logs\<close>. The \<open>try\<close> body opens and parses the file and builds the
  entries; \<open>except FileNotFoundError\<close> catches that class only and sets the log to the
  empty list; any other exception leaves the manager.
\<close>

definition load_logs_try :: "LogManager \<Rightarrow> World \<Rightarrow> exception + LogManager" where
  "load_logs_try self w =
     and_then (open_load (log_file_path self) w) (\<lambda>logs_data.
     and_then (iterate logs_data) (\<lambda>items.
     and_then (OperationLogs_of items) (\<lambda>entries.
       Inr (self\<lparr>logs := entries\<rparr>))))"

definition load_logs :: "LogManager \<Rightarrow> World \<Rightarrow> exception + LogManager" where
  "load_logs self w =
     (case load_logs_try self w of
        Inl e \<Rightarrow> (if exc_class_of e = FileNotFoundError then Inr (self\<lparr>logs := []\<rparr>) else Inl e)
      | Inr self' \<Rightarrow> Inr self')"

text \<open>\<open>LogManager.__init__\<close>; the default path is \<open>operation_logs.json\<close>.\<close>

definition LogManager_init :: "string \<Rightarrow> World \<Rightarrow> exception + LogManager" where
  "LogManager_init path w = load_logs \<lparr>log_file_path = path, logs = []\<rparr> w"

text \<open>\<open>LogManager.save_logs\<close>: the whole list is written, each entry through \<open>to_dict\<close>.\<close>

definition save_logs :: "LogManager \<Rightarrow> World \<Rightarrow> World" where
  "save_logs self w = open_dump (log_file_path self) (JArr (map to_dict (logs self))) w"

text \<open>\<open>LogManager.add_log\<close>: append, then save.\<close>

definition add_log :: "LogManager \<Rightarrow> OperationLog \<Rightarrow> World \<Rightarrow> LogManager \<times> World" where
  "add_log self log w =
     (let self' = self\<lparr>logs := logs self @ [log]\<rparr> in (self', save_logs self' w))"

text \<open>
  A comprehension \<open>[x for x in xs if cond]\<close> is a loop over \<open>xs\<close> that appends to the
  result list.
\<close>

fun comprehension :: "('a \<Rightarrow> bool) \<Rightarrow> 'a list \<Rightarrow> 'a list \<Rightarrow> 'a list" where
  "comprehension cond [] acc = acc"
| "comprehension cond (x # xs) acc = comprehension cond xs (if cond x then acc @ [x] else acc)"

definition get_logs_by_operator :: "LogManager \<Rightarrow> string \<Rightarrow> OperationLog list" where
  "get_logs_by_operator self code =
     comprehension (\<lambda>log. operator_code log = code) (logs self) []"

definition get_logs_by_unit :: "LogManager \<Rightarrow> string \<Rightarrow> OperationLog list" where
  "get_logs_by_unit self u =
     comprehension (\<lambda>log. unit_id log = Some u) (logs self) []"

definition get_logs_by_timerange :: "LogManager \<Rightarrow> datetime \<Rightarrow> datetime \<Rightarrow> OperationLog list" where
  "get_logs_by_timerange self start end0 =
     comprehension (\<lambda>log. datetime_le start (timestamp log) \<and> datetime_le (timestamp log) end0)
       (logs self) []"

section \<open>ProfileManager\<close>

text \<open>The dataclass \<open>Unit\<close>; its fields \<open>id\<close> and \<open>name\<close> carry the class name.\<close>

record Unit =
  Unit_id :: string
  Unit_name :: string

text \<open>
  \<open>ProfileManager\<close> owns the dict of profiles and the dict of units. The constructor
  also stores a reference to the log manager, which no method of the class reads; the
  record leaves it out. \<open>create_profile\<close> and \<open>add_unit\<close> return the object built and
  the manager after the assignment; the result type has the branch for a raise, which
  neither function takes.
\<close>

record ProfileManager =
  profiles :: "string \<rightharpoonup> Profile"
  units :: "string \<rightharpoonup> Unit"

definition ProfileManager_init :: ProfileManager where
  "ProfileManager_init = \<lparr>profiles = Map.empty, units = Map.empty\<rparr>"

definition create_profile ::
  "ProfileManager \<Rightarrow> string \<Rightarrow> string \<Rightarrow> string \<Rightarrow> exception + (Profile \<times> ProfileManager)" where
  "create_profile self name0 base_role0 operator_code0 =
     (let profile = Profile_init name0 base_role0 operator_code0
      in Inr (profile, self\<lparr>profiles := (profiles self)(name0 \<mapsto> profile)\<rparr>))"

definition add_unit ::
  "ProfileManager \<Rightarrow> string \<Rightarrow> string \<Rightarrow> exception + (Unit \<times> ProfileManager)" where
  "add_unit self unit_id0 name0 =
     (let unit0 = \<lparr>Unit_id = unit_id0, Unit_name = name0\<rparr>
      in Inr (unit0, self\<lparr>units := (units self)(unit_id0 \<mapsto> unit0)\<rparr>))"

definition get_profile :: "ProfileManager \<Rightarrow> string \<Rightarrow> Profile option" where
  "get_profile self name0 = profiles self name0"

section \<open>Permissioned actions\<close>

text \<open>
  \<open>PermissionedAction\<close> is abstract; \<open>GenerateReportAction\<close> is its one subclass. The
  action holds a reference to the log manager: the functions below take the manager
  and the environment as a pair and return them as the call leaves them, also when it
  raises.
\<close>

datatype PermissionedAction = GenerateReportAction

fun required_operation :: "PermissionedAction \<Rightarrow> Operation" where
  "required_operation GenerateReportAction = GENERATE_REPORTS"

definition can_execute :: "PermissionedAction \<Rightarrow> Profile \<Rightarrow> string option \<Rightarrow> bool" where
  "can_execute self profile unit_id0 = can_perform profile (required_operation self) unit_id0"

definition log_operation ::
  "PermissionedAction \<Rightarrow> Profile \<Rightarrow> string option \<Rightarrow> string \<Rightarrow> string option \<Rightarrow>
     LogManager \<times> World \<Rightarrow> LogManager \<times> World" where
  "log_operation self profile unit_id0 status0 details0 s =
     (case s of (lm, w) \<Rightarrow>
        (case uuid4 w of (ident, w1) \<Rightarrow>
           (case now w1 of (stamp, w2) \<Rightarrow>
              add_log lm
                \<lparr>id' = ident, operator_code = operator_code' profile,
                 operator_role = base_role profile, operation = required_operation self,
                 unit_id = unit_id0, timestamp = stamp, status = status0,
                 details = details0\<rparr> w2)))"

text \<open>The f-string of the report line: \<open>None\<close> is formatted as \<open>None\<close>.\<close>

definition report_line :: "string option \<Rightarrow> string" where
  "report_line unit_id0 =
     ''Generating report for unit '' @ (case unit_id0 of None \<Rightarrow> ''None'' | Some u \<Rightarrow> u)"

text \<open>
  The \<open>try\<close> body of \<open>GenerateReportAction.execute\<close>: on a denial, log \<open>FAILED\<close> and raise
  \<open>PermissionError\<close>; otherwise print the report line (the action's work) and log
  \<open>SUCCESS\<close>.
\<close>

definition execute_try ::
  "PermissionedAction \<Rightarrow> Profile \<Rightarrow> string option \<Rightarrow> LogManager \<times> World \<Rightarrow>
     (exception + unit) \<times> (LogManager \<times> World)" where
  "execute_try self profile unit_id0 s =
     (if \<not> can_execute self profile unit_id0 then
        (Inl (Exception PermissionError
               ''Profile does not have permission to generate reports''),
         log_operation self profile unit_id0 ''FAILED'' (Some ''Insufficient permissions'') s)
      else
        (case s of (lm, w) \<Rightarrow>
           (case print (report_line unit_id0) w of
              Inl e \<Rightarrow> (Inl e, (lm, w))
            | Inr w1 \<Rightarrow>
                (Inr (), log_operation self profile unit_id0 ''SUCCESS''
                           (Some ''Report generated successfully'') (lm, w1)))))"

text \<open>
  \<open>GenerateReportAction.execute\<close>: the \<open>try\<close> body under \<open>except Exception as e\<close>, which
  logs \<open>ERROR\<close> with \<open>str(e)\<close> and raises \<open>e\<close> again. The clause catches every exception
  the body raises, the \<open>PermissionError\<close> of the denial included.
\<close>

fun execute ::
  "PermissionedAction \<Rightarrow> Profile \<Rightarrow> string option \<Rightarrow> LogManager \<times> World \<Rightarrow>
     (exception + unit) \<times> (LogManager \<times> World)" where
  "execute GenerateReportAction profile unit_id0 s =
     (case execute_try GenerateReportAction profile unit_id0 s of
        (Inl e, s1) \<Rightarrow>
          (Inl e, log_operation GenerateReportAction profile unit_id0 ''ERROR''
                    (Some (str_exc e)) s1)
      | (Inr r, s1) \<Rightarrow> (Inr r, s1))"

section \<open>The objects of main and sample values\<close>

text \<open>
  The two profiles \<open>main\<close> builds, with their grants, and the registry that holds them
  and the two units.
\<close>

definition main_admin1 :: Profile where
  "main_admin1 =
     add_unit_permission
       (add_unit_permission (Profile_init ''admin1'' ''administrator'' ''ADM001'')
          ''UNIT1'' GENERATE_REPORTS)
       ''UNIT1'' VIEW_REPORTS"

definition main_admin2 :: Profile where
  "main_admin2 =
     add_unit_permission (Profile_init ''admin2'' ''administrator'' ''ADM002'')
       ''UNIT1'' VIEW_REPORTS"

definition main_registry :: ProfileManager where
  "main_registry =
     \<lparr>profiles = [''admin1'' \<mapsto> main_admin1, ''admin2'' \<mapsto> main_admin2],
      units = [''UNIT1'' \<mapsto> \<lparr>Unit_id = ''UNIT1'', Unit_name = ''Marketing''\<rparr>,
               ''UNIT2'' \<mapsto> \<lparr>Unit_id = ''UNIT2'', Unit_name = ''Sales''\<rparr>]\<rparr>"

text \<open>
  Sample values for the instances below: a point of time in the first minute of 2024,
  an environment with no file and an open standard output, and a log entry at a given
  second.
\<close>

definition second_of_2024 :: "nat \<Rightarrow> datetime" where
  "second_of_2024 n =
     \<lparr>year = 2024, month = 1, day = 1, hour = 0, minute = 0, second = n, microsecond = 0\<rparr>"

definition fresh_world :: World where
  "fresh_world =
     \<lparr>files = Map.empty, stdout = [], stdout_closed = False,
      uuids = (\<lambda>n. ''uuid-'' @ pad4 n), uuid_calls = 0,
      clock = (\<lambda>n. second_of_2024 (n mod 60)), clock_reads = 0\<rparr>"

definition entry_at :: "nat \<Rightarrow> OperationLog" where
  "entry_at n =
     \<lparr>id' = ''entry-'' @ pad2 n, operator_code = ''ADM001'', operator_role = ''administrator'',
      operation = GENERATE_REPORTS, unit_id = Some ''UNIT1'', timestamp = second_of_2024 n,
      status = ''SUCCESS'', details = None\<rparr>"

text \<open>The entry \<open>log_operation\<close> builds in a given environment.\<close>

definition entry_of ::
  "PermissionedAction \<Rightarrow> Profile \<Rightarrow> string option \<Rightarrow> string \<Rightarrow> string option \<Rightarrow> World
     \<Rightarrow> OperationLog" where
  "entry_of a p u st d w =
     \<lparr>id' = uuids w (uuid_calls w), operator_code = operator_code' p,
      operator_role = base_role p, operation = required_operation a,
      unit_id = u, timestamp = clock w (clock_reads w), status = st, details = d\<rparr>"

section \<open>Properties of the decision rule\<close>

lemma can_perform_iff:
  "can_perform p opn u =
     (opn \<in> global_permissions p \<or>
      (\<exists>x s. u = Some x \<and> x \<noteq> [] \<and> unit_permissions p x = Some s \<and> opn \<in> s))"
  by (auto simp: can_perform_def split: option.splits)

text \<open>
  C3, as amended. The decision is true iff the operation is in the global set, or a
  unit id is supplied that is not the empty string, is a key of the unit-permission
  mapping, and the operation is in that unit's set. Consequently a global grant makes the
  decision true for every unit argument (absent and unrecognised ones included), and a
  grant held only for a non-empty unit \<open>U\<close> makes the decision true for \<open>U\<close> and false for
  every other unit and when no unit is supplied.
\<close>

theorem can_perform_decision_rule:
  "(can_perform p opn u =
      (opn \<in> global_permissions p \<or>
       (\<exists>x s. u = Some x \<and> x \<noteq> [] \<and> unit_permissions p x = Some s \<and> opn \<in> s)))
   \<and> (opn \<in> global_permissions p \<longrightarrow> can_perform p opn u)
   \<and> (opn \<notin> global_permissions p \<and> U \<noteq> [] \<and> unit_permissions p U = Some S \<and> opn \<in> S
        \<and> (\<forall>U' S'. U' \<noteq> U \<and> unit_permissions p U' = Some S' \<longrightarrow> opn \<notin> S')
       \<longrightarrow> can_perform p opn (Some U)
           \<and> (\<forall>U'. U' \<noteq> U \<longrightarrow> \<not> can_perform p opn (Some U'))
           \<and> \<not> can_perform p opn None)"
proof (intro conjI impI)
  show "can_perform p opn u =
      (opn \<in> global_permissions p \<or>
       (\<exists>x s. u = Some x \<and> x \<noteq> [] \<and> unit_permissions p x = Some s \<and> opn \<in> s))"
    by (rule can_perform_iff)
next
  assume "opn \<in> global_permissions p"
  then show "can_perform p opn u"
    by (simp add: can_perform_def)
next
  assume only: "opn \<notin> global_permissions p \<and> U \<noteq> [] \<and> unit_permissions p U = Some S \<and> opn \<in> S
        \<and> (\<forall>U' S'. U' \<noteq> U \<and> unit_permissions p U' = Some S' \<longrightarrow> opn \<notin> S')"
  then show "can_perform p opn (Some U)"
    by (simp add: can_perform_def)
next
  assume only: "opn \<notin> global_permissions p \<and> U \<noteq> [] \<and> unit_permissions p U = Some S \<and> opn \<in> S
        \<and> (\<forall>U' S'. U' \<noteq> U \<and> unit_permissions p U' = Some S' \<longrightarrow> opn \<notin> S')"
  show "\<forall>U'. U' \<noteq> U \<longrightarrow> \<not> can_perform p opn (Some U')"
  proof (intro allI impI)
    fix U' assume "U' \<noteq> U"
    with only show "\<not> can_perform p opn (Some U')"
      by (cases "unit_permissions p U'") (auto simp: can_perform_def)
  qed
next
  assume only: "opn \<notin> global_permissions p \<and> U \<noteq> [] \<and> unit_permissions p U = Some S \<and> opn \<in> S
        \<and> (\<forall>U' S'. U' \<noteq> U \<and> unit_permissions p U' = Some S' \<longrightarrow> opn \<notin> S')"
  then show "\<not> can_perform p opn None"
    by (simp add: can_perform_def)
qed

text \<open>
  Witness for C3: the profile \<open>admin1\<close> of \<open>main\<close> with its grant for \<open>UNIT1\<close> (unit-only
  grant), and the same profile with a global grant.
\<close>

theorem can_perform_decision_rule_witness:
  "can_perform (add_unit_permission (Profile_init ''admin1'' ''administrator'' ''ADM001'')
       ''UNIT1'' GENERATE_REPORTS) GENERATE_REPORTS (Some ''UNIT1'')
   \<and> \<not> can_perform (add_unit_permission (Profile_init ''admin1'' ''administrator'' ''ADM001'')
       ''UNIT1'' GENERATE_REPORTS) GENERATE_REPORTS (Some ''UNIT2'')
   \<and> \<not> can_perform (add_unit_permission (Profile_init ''admin1'' ''administrator'' ''ADM001'')
       ''UNIT1'' GENERATE_REPORTS) GENERATE_REPORTS None
   \<and> can_perform (add_global_permission (Profile_init ''admin1'' ''administrator'' ''ADM001'')
       GENERATE_REPORTS) GENERATE_REPORTS (Some ''UNIT9'')
   \<and> can_perform (add_global_permission (Profile_init ''admin1'' ''administrator'' ''ADM001'')
       GENERATE_REPORTS) GENERATE_REPORTS None"
  using
    can_perform_decision_rule [of
      "add_unit_permission (Profile_init ''admin1'' ''administrator'' ''ADM001'')
         ''UNIT1'' GENERATE_REPORTS"
      GENERATE_REPORTS "Some ''UNIT1''" "''UNIT1''" "{GENERATE_REPORTS}"]
    can_perform_decision_rule [of
      "add_global_permission (Profile_init ''admin1'' ''administrator'' ''ADM001'')
         GENERATE_REPORTS"
      GENERATE_REPORTS "Some ''UNIT9''" "''UNIT1''" "{}"]
    can_perform_decision_rule [of
      "add_global_permission (Profile_init ''admin1'' ''administrator'' ''ADM001'')
         GENERATE_REPORTS"
      GENERATE_REPORTS None "''UNIT1''" "{}"]
  by (simp add: add_unit_permission_def add_global_permission_def Profile_init_def)

text \<open>
  Counterexample to C3 as stated: a profile whose unit-permission mapping has the key
  \<open>""\<close> holding the operation. The unit id \<open>""\<close> is provided, is a key, and the
  operation is in its set; the operation is not granted globally; the decision is false.
\<close>

theorem can_perform_decision_rule_counterexample:
  "unit_permissions (add_unit_permission (Profile_init ''admin1'' ''administrator'' ''ADM001'')
       '''' GENERATE_REPORTS) '''' = Some {GENERATE_REPORTS}
   \<and> GENERATE_REPORTS \<notin> global_permissions
       (add_unit_permission (Profile_init ''admin1'' ''administrator'' ''ADM001'')
          '''' GENERATE_REPORTS)
   \<and> \<not> can_perform (add_unit_permission (Profile_init ''admin1'' ''administrator'' ''ADM001'')
       '''' GENERATE_REPORTS) GENERATE_REPORTS (Some '''')"
  by (simp add: add_unit_permission_def Profile_init_def can_perform_def)

text \<open>
  C9. With the empty string as unit id the decision is true iff the operation is in the
  global permission set, whatever the unit-permission mapping holds under the key \<open>""\<close>.
\<close>

theorem can_perform_empty_unit_id:
  "can_perform p opn (Some '''') = (opn \<in> global_permissions p)"
  by (simp add: can_perform_def)

text \<open>
  Instance of C9 at a profile that holds \<open>VIEW_REPORTS\<close> under the key \<open>""\<close> and
  \<open>EDIT_USER\<close> globally.
\<close>

theorem can_perform_empty_unit_id_witness:
  "\<not> can_perform (add_global_permission
         (add_unit_permission (Profile_init ''op1'' ''operator'' ''OP001'') '''' VIEW_REPORTS)
         EDIT_USER) VIEW_REPORTS (Some '''')
   \<and> can_perform (add_global_permission
         (add_unit_permission (Profile_init ''op1'' ''operator'' ''OP001'') '''' VIEW_REPORTS)
         EDIT_USER) EDIT_USER (Some '''')"
  using
    can_perform_empty_unit_id [of
      "add_global_permission
         (add_unit_permission (Profile_init ''op1'' ''operator'' ''OP001'') '''' VIEW_REPORTS)
         EDIT_USER" VIEW_REPORTS]
    can_perform_empty_unit_id [of
      "add_global_permission
         (add_unit_permission (Profile_init ''op1'' ''operator'' ''OP001'') '''' VIEW_REPORTS)
         EDIT_USER" EDIT_USER]
  by (simp add: add_unit_permission_def add_global_permission_def Profile_init_def)

section \<open>Properties of granting\<close>

lemma global_permissions_add_global:
  "global_permissions (add_global_permission p opn) = insert opn (global_permissions p)"
  by (simp add: add_global_permission_def)

lemma unit_permissions_add_global:
  "unit_permissions (add_global_permission p opn) = unit_permissions p"
  by (simp add: add_global_permission_def)

lemma global_permissions_add_unit:
  "global_permissions (add_unit_permission p u opn) = global_permissions p"
  by (simp add: add_unit_permission_def Let_def split: option.splits)

lemma add_unit_permission_eq:
  "add_unit_permission p u opn =
     p\<lparr>unit_permissions :=
         (unit_permissions p)(u \<mapsto> insert opn (case unit_permissions p u of None \<Rightarrow> {} | Some s \<Rightarrow> s))\<rparr>"
  by (cases "unit_permissions p u") (simp_all add: add_unit_permission_def Let_def dom_def)

lemma unit_permissions_add_unit:
  "unit_permissions (add_unit_permission p u opn) =
     (unit_permissions p)(u \<mapsto> insert opn (case unit_permissions p u of None \<Rightarrow> {} | Some s \<Rightarrow> s))"
  by (simp add: add_unit_permission_eq)

lemma can_perform_add_global:
  "can_perform (add_global_permission p opn') opn u = (opn = opn' \<or> can_perform p opn u)"
  by (cases u) (simp_all add: can_perform_def add_global_permission_def)

lemma can_perform_add_unit:
  "can_perform (add_unit_permission p u' opn') opn u =
     (can_perform p opn u \<or> (u' \<noteq> [] \<and> u = Some u' \<and> opn = opn'))"
  by (cases u; cases "unit_permissions p u'")
     (auto simp add: can_perform_def add_unit_permission_eq split: option.splits)

text \<open>
  C10. A decision that is true stays true after a further global grant and after a
  further unit grant, whatever operation and unit the grant names.
\<close>

theorem grant_never_revokes:
  "can_perform p opn u \<Longrightarrow>
     can_perform (add_global_permission p opn') opn u
     \<and> can_perform (add_unit_permission p u' opn') opn u"
  by (simp add: can_perform_add_global can_perform_add_unit)

theorem grant_never_revokes_witness:
  "can_perform (add_unit_permission (Profile_init ''admin2'' ''administrator'' ''ADM002'')
       ''UNIT1'' VIEW_REPORTS) VIEW_REPORTS (Some ''UNIT1'')
   \<and> can_perform (add_global_permission
         (add_unit_permission (Profile_init ''admin2'' ''administrator'' ''ADM002'')
            ''UNIT1'' VIEW_REPORTS) EDIT_USER) VIEW_REPORTS (Some ''UNIT1'')
   \<and> can_perform (add_unit_permission
         (add_unit_permission (Profile_init ''admin2'' ''administrator'' ''ADM002'')
            ''UNIT1'' VIEW_REPORTS) ''UNIT1'' EDIT_USER) VIEW_REPORTS (Some ''UNIT1'')"
proof -
  have h: "can_perform (add_unit_permission (Profile_init ''admin2'' ''administrator'' ''ADM002'')
       ''UNIT1'' VIEW_REPORTS) VIEW_REPORTS (Some ''UNIT1'')"
    by (simp add: add_unit_permission_def Profile_init_def can_perform_def)
  from h grant_never_revokes [OF h, of EDIT_USER "''UNIT1''"]
  show ?thesis by blast
qed

text \<open>
  C5. Granting is idempotent. A second identical grant changes nothing, globally or for
  a unit; the set concerned then holds the operation exactly once; a unit's set that did
  not exist is created by the first grant and holds just that operation. Both grant
  operations are total functions of the profile: the source has no raise in them.
\<close>

theorem grant_idempotent:
  "add_global_permission (add_global_permission p opn) opn = add_global_permission p opn
   \<and> card {x \<in> global_permissions (add_global_permission (add_global_permission p opn) opn).
             x = opn} = 1
   \<and> add_unit_permission (add_unit_permission p u opn) u opn = add_unit_permission p u opn
   \<and> (\<exists>s. unit_permissions (add_unit_permission (add_unit_permission p u opn) u opn) u = Some s
          \<and> card {x \<in> s. x = opn} = 1)
   \<and> (unit_permissions p u = None \<longrightarrow>
        unit_permissions (add_unit_permission p u opn) u = Some {opn})"
proof (intro conjI impI)
  show "add_global_permission (add_global_permission p opn) opn = add_global_permission p opn"
    by (simp add: add_global_permission_def)
next
  have "{x \<in> global_permissions (add_global_permission (add_global_permission p opn) opn).
           x = opn} = {opn}"
    by (auto simp: global_permissions_add_global)
  then show "card {x \<in> global_permissions
      (add_global_permission (add_global_permission p opn) opn). x = opn} = 1"
    by simp
next
  show "add_unit_permission (add_unit_permission p u opn) u opn = add_unit_permission p u opn"
    by (simp add: add_unit_permission_eq)
next
  let ?s = "insert opn (case unit_permissions p u of None \<Rightarrow> {} | Some s \<Rightarrow> s)"
  have 1: "unit_permissions (add_unit_permission (add_unit_permission p u opn) u opn) u
             = Some ?s"
    by (simp add: unit_permissions_add_unit)
  have "{x \<in> ?s. x = opn} = {opn}" by auto
  then have 2: "card {x \<in> ?s. x = opn} = 1" by simp
  from 1 2 show "\<exists>s. unit_permissions
      (add_unit_permission (add_unit_permission p u opn) u opn) u = Some s
        \<and> card {x \<in> s. x = opn} = 1"
    by blast
next
  assume "unit_permissions p u = None"
  then show "unit_permissions (add_unit_permission p u opn) u = Some {opn}"
    by (simp add: unit_permissions_add_unit)
qed

theorem grant_idempotent_witness:
  "unit_permissions (Profile_init ''admin1'' ''administrator'' ''ADM001'') ''UNIT1'' = None
   \<and> unit_permissions (add_unit_permission
        (Profile_init ''admin1'' ''administrator'' ''ADM001'') ''UNIT1'' GENERATE_REPORTS)
        ''UNIT1'' = Some {GENERATE_REPORTS}
   \<and> add_unit_permission (add_unit_permission
        (Profile_init ''admin1'' ''administrator'' ''ADM001'') ''UNIT1'' GENERATE_REPORTS)
        ''UNIT1'' GENERATE_REPORTS
      = add_unit_permission
        (Profile_init ''admin1'' ''administrator'' ''ADM001'') ''UNIT1'' GENERATE_REPORTS
   \<and> add_global_permission (add_global_permission
        (Profile_init ''admin1'' ''administrator'' ''ADM001'') GENERATE_REPORTS)
        GENERATE_REPORTS
      = add_global_permission
        (Profile_init ''admin1'' ''administrator'' ''ADM001'') GENERATE_REPORTS"
proof -
  have h: "unit_permissions (Profile_init ''admin1'' ''administrator'' ''ADM001'') ''UNIT1''
             = None"
    by (simp add: Profile_init_def)
  from grant_idempotent [of "Profile_init ''admin1'' ''administrator'' ''ADM001''"
      GENERATE_REPORTS "''UNIT1''"] h
  show ?thesis by simp
qed

section \<open>Properties of the audit store\<close>

subsection \<open>Queries\<close>

lemma comprehension_filter: "comprehension cond xs acc = acc @ filter cond xs"
  by (induction xs arbitrary: acc) simp_all

text \<open>
  C7. \<open>get_logs_by_timerange\<close> returns exactly the stored entries whose timestamp \<open>t\<close>
  satisfies \<open>start \<le> t \<le> end\<close>, both bounds included, in the order of the log. It is
  a function of the manager that returns the list only: the log is not modified.
\<close>

theorem get_logs_by_timerange_filter:
  "get_logs_by_timerange lm start end0 =
     filter (\<lambda>log. datetime_le start (timestamp log) \<and> datetime_le (timestamp log) end0)
       (logs lm)"
  by (simp add: get_logs_by_timerange_def comprehension_filter)

text \<open>
  The scenario of C7: three entries at the seconds 0, 1 and 2, and the range from 0 to
  1; the result is the first two entries, in insertion order.
\<close>

theorem get_logs_by_timerange_filter_witness:
  "get_logs_by_timerange
      \<lparr>log_file_path = ''operation_logs.json'', logs = [entry_at 0, entry_at 1, entry_at 2]\<rparr>
      (second_of_2024 0) (second_of_2024 1)
    = [entry_at 0, entry_at 1]"
  using get_logs_by_timerange_filter [of
      "\<lparr>log_file_path = ''operation_logs.json'', logs = [entry_at 0, entry_at 1, entry_at 2]\<rparr>"
      "second_of_2024 0" "second_of_2024 1"]
  by (simp add: entry_at_def second_of_2024_def datetime_le_def datetime_tuple_def)

subsection \<open>Loading without a file\<close>

text \<open>
  C8. When the file system has no file under the path, the constructor (which calls
  \<open>load_logs\<close>) returns normally with the empty log, and so does \<open>load_logs\<close> on an
  existing manager.
\<close>

theorem load_logs_missing_file:
  "files w path = None \<Longrightarrow>
     LogManager_init path w = Inr \<lparr>log_file_path = path, logs = []\<rparr>
     \<and> (log_file_path lm = path \<longrightarrow> load_logs lm w = Inr (lm\<lparr>logs := []\<rparr>))"
  by (simp add: LogManager_init_def load_logs_def load_logs_try_def open_load_def)

theorem load_logs_missing_file_witness:
  "files fresh_world ''operation_logs.json'' = None
   \<and> LogManager_init ''operation_logs.json'' fresh_world
       = Inr \<lparr>log_file_path = ''operation_logs.json'', logs = []\<rparr>"
proof -
  have h: "files fresh_world ''operation_logs.json'' = None"
    by (simp add: fresh_world_def)
  from load_logs_missing_file [OF h] h show ?thesis by simp
qed

subsection \<open>Decimal digits\<close>

lemma div_100: "(n::nat) div 100 = n div 10 div 10"
  by (simp add: div_mult2_eq)

lemma div_1000: "(n::nat) div 1000 = n div 10 div 10 div 10"
  by (simp add: div_mult2_eq)

lemma div_10000: "(n::nat) div 10000 = n div 10 div 10 div 10 div 10"
  by (simp add: div_mult2_eq)

lemma div_100000: "(n::nat) div 100000 = n div 10 div 10 div 10 div 10 div 10"
  by (simp add: div_mult2_eq)

lemma dec4: "1000 * (n div 1000) + 100 * (n div 100 mod 10) + 10 * (n div 10 mod 10) + n mod 10 = (n::nat)"
proof -
  define a r0 where "a = n div 10" and "r0 = n mod 10"
  define b r1 where "b = a div 10" and "r1 = a mod 10"
  define c r2 where "c = b div 10" and "r2 = b mod 10"
  have n: "n = 10 * a + r0" and a: "a = 10 * b + r1" and b: "b = 10 * c + r2"
    by (simp_all add: a_def r0_def b_def r1_def c_def r2_def)
  have e: "n mod 10 = r0" "n div 10 mod 10 = r1" "n div 100 mod 10 = r2" "n div 1000 = c"
    unfolding a_def r0_def b_def r1_def c_def r2_def div_100 div_1000 by (rule refl)+
  show ?thesis
    unfolding e using n a b by linarith
qed

lemma dec6: "100000 * (n div 100000) + 10000 * (n div 10000 mod 10) + 1000 * (n div 1000 mod 10) +
     100 * (n div 100 mod 10) + 10 * (n div 10 mod 10) + n mod 10 = (n::nat)"
proof -
  define a r0 where "a = n div 10" and "r0 = n mod 10"
  define b r1 where "b = a div 10" and "r1 = a mod 10"
  define c r2 where "c = b div 10" and "r2 = b mod 10"
  define d r3 where "d = c div 10" and "r3 = c mod 10"
  define e r4 where "e = d div 10" and "r4 = d mod 10"
  have n: "n = 10 * a + r0" and a: "a = 10 * b + r1" and b: "b = 10 * c + r2"
    and c: "c = 10 * d + r3" and d: "d = 10 * e + r4"
    by (simp_all add: a_def r0_def b_def r1_def c_def r2_def d_def r3_def e_def r4_def)
  have q: "n mod 10 = r0" "n div 10 mod 10 = r1" "n div 100 mod 10 = r2"
    "n div 1000 mod 10 = r3" "n div 10000 mod 10 = r4" "n div 100000 = e"
    unfolding a_def r0_def b_def r1_def c_def r2_def d_def r3_def e_def r4_def
      div_100 div_1000 div_10000 div_100000 by (rule refl)+
  show ?thesis
    unfolding q using n a b c d by linarith
qed


lemma is_digit_digit_char: "n < 10 \<Longrightarrow> is_digit (digit_char n)"
  by (simp add: is_digit_def digit_char_def)

lemma digit_val_digit_char: "n < 10 \<Longrightarrow> digit_val (digit_char n) = n"
  by (simp add: digit_val_def digit_char_def)

lemma parse2_pad2: "n < 100 \<Longrightarrow> parse2 (pad2 n @ rest) = Some (n, rest)"
  by (simp add: pad2_def is_digit_digit_char digit_val_digit_char)

lemma parse4_pad4: "n < 10000 \<Longrightarrow> parse4 (pad4 n @ rest) = Some (n, rest)"
  by (simp add: pad4_def is_digit_digit_char digit_val_digit_char dec4)

lemma parse6_pad6: "n < 1000000 \<Longrightarrow> parse6 (pad6 n @ rest) = Some (n, rest)"
  by (simp add: pad6_def is_digit_digit_char digit_val_digit_char dec6)

lemma length_pad6: "length (pad6 n) = 6"
  by (simp add: pad6_def)

lemma pad2_not_Nil: "pad2 n @ rest \<noteq> []"
  by (simp add: pad2_def)

lemma parse_fraction_pad6: "n < 1000000 \<Longrightarrow> parse_fraction (pad6 n) = Some n"
  using parse6_pad6 [of n "[]"] by (simp add: parse_fraction_def length_pad6)

subsection \<open>isoformat and fromisoformat\<close>

lemma parse_date_iso:
  "y < 10000 \<Longrightarrow> m < 100 \<Longrightarrow> d < 100 \<Longrightarrow>
   parse_date (pad4 y @ CHR ''-'' # pad2 m @ CHR ''-'' # pad2 d @ rest) = Some ((y, m, d), rest)"
  by (simp add: parse_date_def parse4_pad4 parse2_pad2)

lemma parse_time_iso_seconds:
  "h < 100 \<Longrightarrow> mi < 100 \<Longrightarrow> s < 100 \<Longrightarrow>
   parse_time (pad2 h @ CHR '':'' # pad2 mi @ CHR '':'' # pad2 s) = Some (h, mi, s, 0)"
  using parse2_pad2 [of s "[]"]
  by (simp add: parse_time_def parse2_pad2 pad2_not_Nil)

lemma parse_time_iso_micro:
  "h < 100 \<Longrightarrow> mi < 100 \<Longrightarrow> s < 100 \<Longrightarrow> us < 1000000 \<Longrightarrow>
   parse_time (pad2 h @ CHR '':'' # pad2 mi @ CHR '':'' # pad2 s @ CHR ''.'' # pad6 us)
     = Some (h, mi, s, us)"
  by (simp add: parse_time_def parse2_pad2 parse_fraction_pad6 pad2_not_Nil)

lemma parse_isoformat_isoformat:
  assumes "valid_datetime t"
  shows "parse_isoformat (isoformat t) = Some t"
proof -
  from assms have b: "year t < 10000" "month t < 100" "day t < 100" "hour t < 100"
    "minute t < 100" "second t < 100" "microsecond t < 1000000"
    by (auto simp: valid_datetime_def days_in_month_def split: if_splits)
  show ?thesis
  proof (cases "microsecond t = 0")
    case True
    have "isoformat t = pad4 (year t) @ ''-'' @ pad2 (month t) @ ''-'' @ pad2 (day t) @
        (CHR ''T'' # (pad2 (hour t) @ '':'' @ pad2 (minute t) @ '':'' @ pad2 (second t)))"
      using True by (simp add: isoformat_def)
    then show ?thesis
      using b True parse_time_iso_seconds [of "hour t" "minute t" "second t"]
      by (simp add: parse_isoformat_def parse_date_iso)
  next
    case False
    have "isoformat t = pad4 (year t) @ ''-'' @ pad2 (month t) @ ''-'' @ pad2 (day t) @
        (CHR ''T'' # (pad2 (hour t) @ '':'' @ pad2 (minute t) @ '':'' @ pad2 (second t) @
            ''.'' @ pad6 (microsecond t)))"
      using False by (simp add: isoformat_def)
    then show ?thesis
      using b parse_time_iso_micro [of "hour t" "minute t" "second t" "microsecond t"]
      by (simp add: parse_isoformat_def parse_date_iso)
  qed
qed

lemma fromisoformat_isoformat:
  "valid_datetime t \<Longrightarrow> fromisoformat (isoformat t) = Inr t"
  by (simp add: fromisoformat_def parse_isoformat_isoformat)

subsection \<open>Saving and loading\<close>

lemma Operation_call_value: "Operation_call (JStr (Operation_value opn)) = Inr opn"
  by (cases opn) (simp_all add: Operation_members_def)

lemma optional_str_field_optional_str: "optional_str_field (optional_str v) = Inr v"
  by (cases v) (simp_all add: optional_str_def)

lemma OperationLog_of_to_dict:
  "valid_datetime (timestamp e) \<Longrightarrow> OperationLog_of (to_dict e) = Inr e"
  by (simp add: OperationLog_of_def to_dict_def Operation_call_value
        optional_str_field_optional_str fromisoformat_isoformat del: Operation_call.simps)

lemma OperationLogs_of_to_dict:
  "list_all (\<lambda>e. valid_datetime (timestamp e)) es \<Longrightarrow>
     OperationLogs_of (map to_dict es) = Inr es"
  by (induction es) (simp_all add: OperationLog_of_to_dict)

lemma load_logs_save_logs:
  "list_all (\<lambda>e. valid_datetime (timestamp e)) (logs lm) \<Longrightarrow>
     log_file_path lm' = log_file_path lm \<Longrightarrow>
     load_logs lm' (save_logs lm w) = Inr (lm'\<lparr>logs := logs lm\<rparr>)"
  by (simp add: load_logs_def load_logs_try_def save_logs_def open_dump_def open_load_def
        OperationLogs_of_to_dict)

lemma add_log_load_logs:
  "list_all (\<lambda>e. valid_datetime (timestamp e)) (logs lm) \<Longrightarrow>
     valid_datetime (timestamp entry) \<Longrightarrow>
     (case add_log lm entry w of (lm1, w1) \<Rightarrow>
        logs lm1 = logs lm @ [entry] \<and> load_logs lm1 w1 = Inr lm1)"
  by (simp add: add_log_def Let_def load_logs_save_logs)

text \<open>
  C6. Round trip: a log of entries whose timestamps are datetime values (the library
  class admits no other field values) is written by \<open>save_logs\<close> and read back by
  \<open>load_logs\<close>, or by the constructor of a new manager on the same path, as the same
  list: the same number of entries, each equal to the original in every field, in the
  original order.
\<close>

theorem save_load_round_trip:
  "list_all (\<lambda>e. valid_datetime (timestamp e)) (logs lm) \<Longrightarrow>
     load_logs lm (save_logs lm w) = Inr lm
     \<and> LogManager_init (log_file_path lm) (save_logs lm w) = Inr lm
     \<and> (\<exists>lm'. LogManager_init (log_file_path lm) (save_logs lm w) = Inr lm'
           \<and> length (logs lm') = length (logs lm)
           \<and> logs lm' = logs lm)"
  by (simp add: LogManager_init_def load_logs_save_logs)

theorem save_load_round_trip_witness:
  "load_logs \<lparr>log_file_path = ''operation_logs.json'', logs = [entry_at 0, entry_at 1]\<rparr>
      (save_logs \<lparr>log_file_path = ''operation_logs.json'', logs = [entry_at 0, entry_at 1]\<rparr>
         fresh_world)
    = Inr \<lparr>log_file_path = ''operation_logs.json'', logs = [entry_at 0, entry_at 1]\<rparr>"
proof -
  have h: "list_all (\<lambda>e. valid_datetime (timestamp e))
      (logs \<lparr>log_file_path = ''operation_logs.json'', logs = [entry_at 0, entry_at 1]\<rparr>)"
    by (simp add: entry_at_def second_of_2024_def valid_datetime_def days_in_month_def)
  from save_load_round_trip [OF h, of fresh_world] show ?thesis by simp
qed

section \<open>Properties of the registry\<close>

text \<open>
  C4, as amended. \<open>create_profile\<close> and \<open>add_unit\<close> do not fail when the name,
  respectively the unit id, already exists: they return the object just built and store
  it under the key, in place of the existing one; the other entries and the other dict
  stay as they are.
\<close>

theorem create_profile_add_unit_overwrite:
  "(name0 \<in> dom (profiles pm) \<longrightarrow>
      (\<exists>p pm'. create_profile pm name0 role0 code0 = Inr (p, pm')
          \<and> p = Profile_init name0 role0 code0
          \<and> profiles pm' = (profiles pm)(name0 \<mapsto> p) \<and> units pm' = units pm))
   \<and> (uid \<in> dom (units pm) \<longrightarrow>
      (\<exists>u pm'. add_unit pm uid uname = Inr (u, pm')
          \<and> u = \<lparr>Unit_id = uid, Unit_name = uname\<rparr>
          \<and> units pm' = (units pm)(uid \<mapsto> u) \<and> profiles pm' = profiles pm))"
  by (simp add: create_profile_def add_unit_def Let_def)

theorem create_profile_add_unit_overwrite_witness:
  "''admin1'' \<in> dom (profiles main_registry)
   \<and> ''UNIT1'' \<in> dom (units main_registry)
   \<and> (\<exists>p pm'. create_profile main_registry ''admin1'' ''operator'' ''OP777'' = Inr (p, pm')
          \<and> p = Profile_init ''admin1'' ''operator'' ''OP777''
          \<and> profiles pm' = (profiles main_registry)(''admin1'' \<mapsto> p)
          \<and> units pm' = units main_registry)
   \<and> (\<exists>u pm'. add_unit main_registry ''UNIT1'' ''Finance'' = Inr (u, pm')
          \<and> u = \<lparr>Unit_id = ''UNIT1'', Unit_name = ''Finance''\<rparr>
          \<and> units pm' = (units main_registry)(''UNIT1'' \<mapsto> u)
          \<and> profiles pm' = profiles main_registry)"
proof -
  have h1: "''admin1'' \<in> dom (profiles main_registry)"
    and h2: "''UNIT1'' \<in> dom (units main_registry)"
    by (simp_all add: main_registry_def)
  from create_profile_add_unit_overwrite [of "''admin1''" main_registry
      "''operator''" "''OP777''" "''UNIT1''" "''Finance''"] h1 h2
  show ?thesis by blast
qed

text \<open>
  Counterexample to C4 as stated: in the registry of \<open>main\<close> the profile \<open>admin1\<close> and
  the unit \<open>UNIT1\<close> exist; creating them again returns normally and overwrites.
\<close>

theorem create_profile_add_unit_counterexample:
  "''admin1'' \<in> dom (profiles main_registry)
   \<and> ''UNIT1'' \<in> dom (units main_registry)
   \<and> (case create_profile main_registry ''admin1'' ''operator'' ''OP777'' of
         Inl e \<Rightarrow> False
       | Inr (p, pm') \<Rightarrow>
           profiles pm' ''admin1'' = Some (Profile_init ''admin1'' ''operator'' ''OP777''))
   \<and> (case add_unit main_registry ''UNIT1'' ''Finance'' of
         Inl e \<Rightarrow> False
       | Inr (u, pm') \<Rightarrow>
           units pm' ''UNIT1'' = Some \<lparr>Unit_id = ''UNIT1'', Unit_name = ''Finance''\<rparr>)"
  by (simp add: main_registry_def create_profile_def add_unit_def Let_def)

section \<open>Properties of the gated execution\<close>

lemma log_operation_eq:
  "log_operation a p u st d (lm, w) =
     (lm\<lparr>logs := logs lm @ [entry_of a p u st d w]\<rparr>,
      w\<lparr>uuid_calls := Suc (uuid_calls w), clock_reads := Suc (clock_reads w),
        files := (files w)(log_file_path lm \<mapsto>
                   JArr (map to_dict (logs lm @ [entry_of a p u st d w])))\<rparr>)"
  by (simp add: log_operation_def uuid4_def now_def add_log_def save_logs_def open_dump_def
        entry_of_def Let_def)

lemma execute_denied:
  assumes "\<not> can_perform p GENERATE_REPORTS u"
  shows "execute GenerateReportAction p u (lm, w) =
     (Inl (Exception PermissionError ''Profile does not have permission to generate reports''),
      log_operation GenerateReportAction p u ''ERROR''
        (Some ''Profile does not have permission to generate reports'')
        (log_operation GenerateReportAction p u ''FAILED'' (Some ''Insufficient permissions'')
           (lm, w)))"
  using assms by (simp add: execute_try_def can_execute_def)

lemma execute_allowed_printed:
  assumes "can_perform p GENERATE_REPORTS u" "\<not> stdout_closed w"
  shows "execute GenerateReportAction p u (lm, w) =
     (Inr (),
      log_operation GenerateReportAction p u ''SUCCESS'' (Some ''Report generated successfully'')
        (lm, w\<lparr>stdout := stdout w @ [report_line u]\<rparr>))"
  using assms by (simp add: execute_try_def can_execute_def print_def)

lemma execute_allowed_fault:
  assumes "can_perform p GENERATE_REPORTS u" "stdout_closed w"
  shows "execute GenerateReportAction p u (lm, w) =
     (Inl (Exception ValueError ''I/O operation on closed file.''),
      log_operation GenerateReportAction p u ''ERROR'' (Some ''I/O operation on closed file.'')
        (lm, w))"
  using assms by (simp add: execute_try_def can_execute_def print_def)

lemma execute_allowed_one_entry:
  assumes "can_perform p GENERATE_REPORTS u"
  shows "length (logs (fst (snd (execute GenerateReportAction p u (lm, w)))))
           = length (logs lm) + 1"
proof (cases "stdout_closed w")
  case True
  with assms show ?thesis
    by (simp add: execute_allowed_fault log_operation_eq del: execute.simps)
next
  case False
  with assms show ?thesis
    by (simp add: execute_allowed_printed log_operation_eq del: execute.simps)
qed

lemma execute_denied_two_entries:
  assumes "\<not> can_perform p GENERATE_REPORTS u"
  shows "length (logs (fst (snd (execute GenerateReportAction p u (lm, w)))))
           = length (logs lm) + 2"
  using assms by (simp add: execute_denied log_operation_eq del: execute.simps)

text \<open>
  C2. When the decision for the action's operation is false, \<open>execute\<close> appends an entry
  with status \<open>FAILED\<close> and details \<open>Insufficient permissions\<close> (for the profile, the
  operation and the unit of the call), the call ends in \<open>PermissionError\<close>, and the
  action's work is not done: nothing is printed. The entry is followed in the log by a
  second one, with status \<open>ERROR\<close>, and the file holds the log as it then is.
\<close>

theorem execute_denied_logs_failed:
  assumes "\<not> can_perform p GENERATE_REPORTS u"
  shows "\<exists>e1 e2 lm' w'.
      execute GenerateReportAction p u (lm, w) =
        (Inl (Exception PermissionError
               ''Profile does not have permission to generate reports''), (lm', w'))
      \<and> logs lm' = logs lm @ [e1, e2]
      \<and> status e1 = ''FAILED'' \<and> details e1 = Some ''Insufficient permissions''
      \<and> operation e1 = GENERATE_REPORTS \<and> unit_id e1 = u
      \<and> operator_code e1 = operator_code' p \<and> operator_role e1 = base_role p
      \<and> status e2 = ''ERROR''
      \<and> files w' (log_file_path lm) = Some (JArr (map to_dict (logs lm')))
      \<and> stdout w' = stdout w \<and> stdout_closed w' = stdout_closed w"
  using assms by (simp add: execute_denied log_operation_eq entry_of_def del: execute.simps)

theorem execute_denied_logs_failed_witness:
  "\<not> can_perform main_admin2 GENERATE_REPORTS (Some ''UNIT1'')
   \<and> (\<exists>e1 e2 lm' w'.
      execute GenerateReportAction main_admin2 (Some ''UNIT1'')
          (\<lparr>log_file_path = ''operation_logs.json'', logs = []\<rparr>, fresh_world) =
        (Inl (Exception PermissionError
               ''Profile does not have permission to generate reports''), (lm', w'))
      \<and> logs lm' = logs \<lparr>log_file_path = ''operation_logs.json'', logs = []\<rparr> @ [e1, e2]
      \<and> status e1 = ''FAILED'' \<and> details e1 = Some ''Insufficient permissions''
      \<and> stdout w' = stdout fresh_world)"
proof -
  have h: "\<not> can_perform main_admin2 GENERATE_REPORTS (Some ''UNIT1'')"
    by (simp add: main_admin2_def add_unit_permission_def Profile_init_def can_perform_def)
  from execute_denied_logs_failed [OF h,
      of "\<lparr>log_file_path = ''operation_logs.json'', logs = []\<rparr>" fresh_world] h
  show ?thesis by blast
qed

text \<open>
  C1, at the second call of \<open>main\<close>: \<open>admin2\<close> holds \<open>VIEW_REPORTS\<close> only, the call is
  denied, and the log, empty before, holds two entries after it: \<open>FAILED\<close>, written
  before the raise, and \<open>ERROR\<close>, written by the \<open>except\<close> clause that catches the raise.
  For an allowed call the count grows by one (\<open>execute_allowed_one_entry\<close>), for every
  denied call by two (\<open>execute_denied_two_entries\<close>).
\<close>

theorem execute_denied_appends_two_entries:
  "(case execute GenerateReportAction main_admin2 (Some ''UNIT1'')
           (\<lparr>log_file_path = ''operation_logs.json'', logs = []\<rparr>, fresh_world) of
      (r, lm', w') \<Rightarrow>
         r = Inl (Exception PermissionError
                   ''Profile does not have permission to generate reports'')
         \<and> length (logs lm') = 2
         \<and> map status (logs lm') = [''FAILED'', ''ERROR'']
         \<and> map details (logs lm') =
             [Some ''Insufficient permissions'',
              Some ''Profile does not have permission to generate reports''])"
  by (simp add: execute_try_def can_execute_def main_admin2_def add_unit_permission_def
        Profile_init_def can_perform_def log_operation_eq entry_of_def)

end
